theory Spec2Isabelle
  imports Main "HOL-Library.Sublist"
begin

section \<open>JavaScript values on the wire\<close>

text \<open>
  The relay (chat_server/src/server.ts) receives raw frames, runs \<^verbatim>\<open>JSON.parse\<close> on
  their text and then reads properties of the result. TypeScript's annotation
  \<^verbatim>\<open>let msg: Message\<close> is erased at run time, so the handler works on whatever value the
  parser returned. The values are those of JavaScript that JSON can denote, plus
  \<^verbatim>\<open>undefined\<close>, which a read of an absent property gives. Numbers are IEEE doubles that
  the relay only carries; their type is the parameter \<open>'n\<close>.

  An object is the list of its own properties. \<^verbatim>\<open>JSON.parse\<close> keeps one value per key,
  so a parser returns each key once.
\<close>

datatype 'n js =
    JUndefined
  | JNull
  | JBool bool
  | JNum 'n
  | JStr string
  | JArr "'n js list"
  | JObj "(string \<times> 'n js) list"

datatype js_error = TypeError

text \<open>
  The property read \<^verbatim>\<open>v.k\<close>. On \<^verbatim>\<open>null\<close> and \<^verbatim>\<open>undefined\<close> it throws a TypeError. On an
  object it gives the own property, or \<^verbatim>\<open>undefined\<close>. The handler reads only the keys
  \<^verbatim>\<open>type\<close>, \<^verbatim>\<open>payload\<close> and \<^verbatim>\<open>stroke\<close>, which no prototype of a boolean, number,
  string, array or plain object defines, so every other value gives \<^verbatim>\<open>undefined\<close>.
\<close>

fun get_prop :: "'n js \<Rightarrow> string \<Rightarrow> js_error + 'n js" where
  "get_prop JUndefined k = Inl TypeError"
| "get_prop JNull k = Inl TypeError"
| "get_prop (JObj kvs) k = Inr (case map_of kvs k of None \<Rightarrow> JUndefined | Some v \<Rightarrow> v)"
| "get_prop (JBool b) k = Inr JUndefined"
| "get_prop (JNum x) k = Inr JUndefined"
| "get_prop (JStr s) k = Inr JUndefined"
| "get_prop (JArr vs) k = Inr JUndefined"

text \<open>The chained read \<^verbatim>\<open>msg.payload.stroke\<close> of server.ts line 38.\<close>

definition payload_stroke :: "'n js \<Rightarrow> js_error + 'n js" where
  "payload_stroke msg =
     (case get_prop msg ''payload'' of
        Inl e \<Rightarrow> Inl e
      | Inr p \<Rightarrow> get_prop p ''stroke'')"

section \<open>The message union (shared/types/messages.ts)\<close>

text \<open>The eight \<^verbatim>\<open>type\<close> tags of the union \<^verbatim>\<open>Message\<close>, in the order of its declaration.\<close>

definition Message_types :: "string list" where
  "Message_types =
     [''stroke:add'', ''stroke:remove'', ''stroke:move'', ''board:clear'',
      ''chat:message'', ''user:join'', ''board:sync'', ''chat:sync'']"

text \<open>\<^verbatim>\<open>msg.type === t\<close>: strict equality with a string literal; a throwing read is not equal.\<close>

definition has_type :: "'n js \<Rightarrow> string \<Rightarrow> bool" where
  "has_type msg t = (get_prop msg ''type'' = Inr (JStr t))"

definition recognized_type :: "'n js \<Rightarrow> bool" where
  "recognized_type msg = list_ex (has_type msg) Message_types"

section \<open>Sockets\<close>

text \<open>
  A raw frame is a byte string. A socket is its \<^verbatim>\<open>readyState\<close> and the frames handed to
  its \<^verbatim>\<open>send\<close>, oldest first.
\<close>

type_synonym data = string

datatype ready_state = CONNECTING | OPEN | CLOSING | CLOSED

record socket =
  readyState :: ready_state
  sent :: "data list"

definition ws_send :: "socket \<Rightarrow> data \<Rightarrow> socket" where
  "ws_send ws d = ws\<lparr>sent := sent ws @ [d]\<rparr>"

section \<open>The relay (chat_server/src/server.ts)\<close>

text \<open>
  The module-level variables \<^verbatim>\<open>strokes\<close> and \<^verbatim>\<open>chatHistory\<close>, and \<^verbatim>\<open>wss.clients\<close>, the
  sessions of the server in the order they connected (a JavaScript Set iterates in
  insertion order and holds each socket once).
\<close>

record 'n relay =
  strokes :: "'n js list"
  chatHistory :: "'n js list"
  clients :: "socket list"

definition initial_relay :: "'n relay" where
  "initial_relay = \<lparr>strokes = [], chatHistory = [], clients = []\<rparr>"

text \<open>
  A handler either returns or throws; the variables keep what was written before the
  throw. No handler of server.ts catches a TypeError, so a throw ends the process.
\<close>

datatype outcome = Returned | Thrown js_error

text \<open>The two snapshot objects built on connection (lines 12-18 and 21-24).\<close>

definition syncMsg :: "'n relay \<Rightarrow> 'n js" where
  "syncMsg st =
     JObj [(''type'', JStr ''board:sync''),
           (''payload'', JObj [(''strokes'', JArr (strokes st)), (''users'', JArr [])])]"

definition chatSyncMsg :: "'n relay \<Rightarrow> 'n js" where
  "chatSyncMsg st =
     JObj [(''type'', JStr ''chat:sync''),
           (''payload'', JObj [(''chatHistory'', JArr (chatHistory st))])]"

text \<open>
  The body of the connection callback before it registers the message handler (lines
  11-25), on the new socket \<open>ws\<close>. \<open>stringify\<close> stands for \<^verbatim>\<open>JSON.stringify\<close>.
\<close>

definition onConnection :: "('n js \<Rightarrow> data) \<Rightarrow> 'n relay \<Rightarrow> socket \<Rightarrow> socket" where
  "onConnection stringify st ws =
     ws_send (ws_send ws (stringify (syncMsg st))) (stringify (chatSyncMsg st))"

text \<open>
  The library adds the accepted socket, open and with nothing sent, to \<^verbatim>\<open>wss.clients\<close>
  and then emits the connection event.
\<close>

definition new_socket :: socket where
  "new_socket = \<lparr>readyState = OPEN, sent = []\<rparr>"

definition connect :: "('n js \<Rightarrow> data) \<Rightarrow> 'n relay \<Rightarrow> 'n relay" where
  "connect stringify st = st\<lparr>clients := clients st @ [onConnection stringify st new_socket]\<rparr>"

text \<open>Lines 37-40: \<^verbatim>\<open>if (msg.type === 'stroke:add') strokes.push(msg.payload.stroke)\<close>.\<close>

definition handle_stroke_add :: "'n js \<Rightarrow> 'n relay \<Rightarrow> js_error + 'n relay" where
  "handle_stroke_add msg st =
     (case get_prop msg ''type'' of
        Inl e \<Rightarrow> Inl e
      | Inr ty \<Rightarrow>
          if ty = JStr ''stroke:add''
          then (case payload_stroke msg of
                  Inl e \<Rightarrow> Inl e
                | Inr s \<Rightarrow> Inr (st\<lparr>strokes := strokes st @ [s]\<rparr>))
          else Inr st)"

text \<open>Lines 43-45: \<^verbatim>\<open>if (msg.type === 'chat:message') chatHistory.push(msg.payload)\<close>.\<close>

definition handle_chat_message :: "'n js \<Rightarrow> 'n relay \<Rightarrow> js_error + 'n relay" where
  "handle_chat_message msg st =
     (case get_prop msg ''type'' of
        Inl e \<Rightarrow> Inl e
      | Inr ty \<Rightarrow>
          if ty = JStr ''chat:message''
          then (case get_prop msg ''payload'' of
                  Inl e \<Rightarrow> Inl e
                | Inr p \<Rightarrow> Inr (st\<lparr>chatHistory := chatHistory st @ [p]\<rparr>))
          else Inr st)"

text \<open>Lines 48-52: the received \<open>data\<close> itself goes to every client that is open.\<close>

definition broadcast :: "data \<Rightarrow> 'n relay \<Rightarrow> 'n relay" where
  "broadcast d st =
     st\<lparr>clients := map (\<lambda>client. if readyState client = OPEN then ws_send client d else client)
                         (clients st)\<rparr>"

text \<open>
  The message handler (lines 27-53). \<open>parse d\<close> stands for
  \<^verbatim>\<open>JSON.parse(data.toString())\<close>: \<open>None\<close> when it throws, which the handler catches and
  returns on. Both throwing reads come before the first write, so a throw leaves the
  relay as it was.
\<close>

definition onMessage :: "(data \<Rightarrow> 'n js option) \<Rightarrow> data \<Rightarrow> 'n relay \<Rightarrow> outcome \<times> 'n relay" where
  "onMessage parse d st =
     (case parse d of
        None \<Rightarrow> (Returned, st)
      | Some msg \<Rightarrow>
          (case handle_stroke_add msg st of
             Inl e \<Rightarrow> (Thrown e, st)
           | Inr st1 \<Rightarrow>
               (case handle_chat_message msg st1 of
                  Inl e \<Rightarrow> (Thrown e, st1)
                | Inr st2 \<Rightarrow> (Returned, broadcast d st2))))"

text \<open>
  The events of the server: a connection, or a frame from the session at a position of
  \<^verbatim>\<open>wss.clients\<close>. Every session registers the same handler, which never looks at the
  socket it is registered on.
\<close>

datatype event = Connection | Message nat data

fun step :: "(data \<Rightarrow> 'n js option) \<Rightarrow> ('n js \<Rightarrow> data) \<Rightarrow> 'n relay \<Rightarrow> event \<Rightarrow> outcome \<times> 'n relay" where
  "step parse stringify st Connection = (Returned, connect stringify st)"
| "step parse stringify st (Message sender d) = onMessage parse d st"

text \<open>The event loop: one event at a time, to completion; it stops at the first throw.\<close>

fun run :: "(data \<Rightarrow> 'n js option) \<Rightarrow> ('n js \<Rightarrow> data) \<Rightarrow> 'n relay \<Rightarrow> event list \<Rightarrow> outcome \<times> 'n relay" where
  "run parse stringify st [] = (Returned, st)"
| "run parse stringify st (ev # evs) =
     (case step parse stringify st ev of
        (Returned, st') \<Rightarrow> run parse stringify st' evs
      | (Thrown e, st') \<Rightarrow> (Thrown e, st'))"

section \<open>The client socket hook (frontend/src/hooks/useWebSocket.ts)\<close>

text \<open>
  \<^verbatim>\<open>send\<close> (lines 30-34) on the ref \<^verbatim>\<open>ws.current\<close>, which is \<^verbatim>\<open>null\<close> until the effect has
  created the socket. The result is the ref after the call; the hook keeps no other
  state. \<open>stringify\<close> stands for \<^verbatim>\<open>JSON.stringify\<close>, which is only reached on an open
  socket.
\<close>

definition send :: "('m \<Rightarrow> data) \<Rightarrow> socket option \<Rightarrow> 'm \<Rightarrow> socket option" where
  "send stringify current msg =
     (case current of
        None \<Rightarrow> None
      | Some ws \<Rightarrow>
          if readyState ws = OPEN then Some (ws_send ws (stringify msg)) else Some ws)"

section \<open>The client store (frontend/src/contexts/WhiteboardContext.tsx)\<close>

text \<open>
  The interfaces \<^verbatim>\<open>Stroke\<close>, \<^verbatim>\<open>Point\<close>, \<^verbatim>\<open>DrawingTool\<close> and \<^verbatim>\<open>ToolSettings\<close> are declared in
  modules of the frontend that are not modelled (interfaces/canvas, types/tool); they are
  type parameters. A tool type is the string a tool's \<^verbatim>\<open>id\<close> is compared with. The local strokes are the field \<^verbatim>\<open>strokes\<close> of
  the source, here \<open>state_strokes\<close> (the relay's variable has the plain name).
\<close>

datatype export_format = png | svg

record ('stroke, 'point, 'tool, 'settings) WhiteboardState =
  activeTool :: 'tool
  settings :: 'settings
  allTools :: "'tool list"
  currentStroke :: "'stroke option"
  state_strokes :: "'stroke list"
  selectedStrokes :: "nat set"
  previewShape :: "'stroke option"
  isDragging :: bool
  dragStart :: "'point option"
  exportFormat :: export_format
  isWasmLoaded :: bool
  wasmError :: "string option"
  strokeUpdateTrigger :: nat

text \<open>
  In \<open>SET_DRAGGING\<close> the optional \<^verbatim>\<open>dragStart\<close> is \<open>None\<close> when the property is absent
  (\<^verbatim>\<open>undefined\<close>), \<open>Some None\<close> when it is \<^verbatim>\<open>null\<close>.
\<close>

datatype ('stroke, 'point, 'tool, 'patch) WhiteboardAction =
    SET_ACTIVE_TOOL string
  | UPDATE_SETTINGS 'patch
  | SET_CURRENT_STROKE "'stroke option"
  | SET_STROKES "'stroke list"
  | SET_SELECTED_STROKES "nat set"
  | SET_PREVIEW_SHAPE "'stroke option"
  | SET_DRAGGING bool "'point option option"
  | SET_EXPORT_FORMAT export_format
  | SET_WASM_LOADED bool
  | SET_WASM_ERROR "string option"
  | TRIGGER_STROKE_UPDATE
  | CLEAR_CANVAS
  | SET_ALL_TOOLS "'tool list"

text \<open>
  \<^verbatim>\<open>strokeUpdateTrigger\<close> is a double that starts at 0 and is only ever incremented, so it
  holds a natural number that a double can hold. \<^verbatim>\<open>x + 1\<close> on such a double is exact below
  \<open>2 ^ 53\<close>. From there to \<open>2 ^ 54\<close> the doubles are the even numbers, \<open>n + 1\<close> lies midway
  between \<open>n\<close> and \<open>n + 2\<close>, and the sum is the one of the two whose mantissa \<open>n div 2\<close>
  or \<open>n div 2 + 1\<close> is even. From \<open>2 ^ 54\<close> on the sum is \<open>n\<close> again.
\<close>

definition double_succ :: "nat \<Rightarrow> nat" where
  "double_succ n =
     (if n < 2 ^ 53 then n + 1
      else if n < 2 ^ 54 \<and> odd (n div 2) then n + 2
      else n)"

text \<open>
  The reducer (lines 73-169). \<open>tool_id\<close> reads a tool's \<^verbatim>\<open>id\<close>; \<open>spread\<close> is the object
  spread \<^verbatim>\<open>{ ...state.settings, ...action.payload }\<close>.
\<close>

fun whiteboardReducer ::
  "('tool \<Rightarrow> string) \<Rightarrow> ('settings \<Rightarrow> 'patch \<Rightarrow> 'settings) \<Rightarrow>
   ('stroke, 'point, 'tool, 'settings) WhiteboardState \<Rightarrow>
   ('stroke, 'point, 'tool, 'patch) WhiteboardAction \<Rightarrow>
   ('stroke, 'point, 'tool, 'settings) WhiteboardState" where
  "whiteboardReducer tool_id spread state (SET_ACTIVE_TOOL payload) =
     state\<lparr>activeTool :=
       (case find (\<lambda>tool. tool_id tool = payload) (allTools state) of
          Some foundTool \<Rightarrow> foundTool
        | None \<Rightarrow> (case allTools state of first # rest \<Rightarrow> first | [] \<Rightarrow> activeTool state))\<rparr>"
| "whiteboardReducer tool_id spread state (UPDATE_SETTINGS payload) =
     state\<lparr>settings := spread (settings state) payload\<rparr>"
| "whiteboardReducer tool_id spread state (SET_CURRENT_STROKE payload) =
     state\<lparr>currentStroke := payload\<rparr>"
| "whiteboardReducer tool_id spread state (SET_STROKES payload) =
     state\<lparr>state_strokes := payload\<rparr>"
| "whiteboardReducer tool_id spread state (SET_SELECTED_STROKES payload) =
     state\<lparr>selectedStrokes := payload\<rparr>"
| "whiteboardReducer tool_id spread state (SET_PREVIEW_SHAPE payload) =
     state\<lparr>previewShape := payload\<rparr>"
| "whiteboardReducer tool_id spread state (SET_DRAGGING dragging start) =
     state\<lparr>isDragging := dragging,
           dragStart := (case start of Some p \<Rightarrow> p | None \<Rightarrow> dragStart state)\<rparr>"
| "whiteboardReducer tool_id spread state (SET_EXPORT_FORMAT payload) =
     state\<lparr>exportFormat := payload\<rparr>"
| "whiteboardReducer tool_id spread state (SET_WASM_LOADED payload) =
     state\<lparr>isWasmLoaded := payload\<rparr>"
| "whiteboardReducer tool_id spread state (SET_WASM_ERROR payload) =
     state\<lparr>wasmError := payload\<rparr>"
| "whiteboardReducer tool_id spread state TRIGGER_STROKE_UPDATE =
     state\<lparr>strokeUpdateTrigger := double_succ (strokeUpdateTrigger state)\<rparr>"
| "whiteboardReducer tool_id spread state CLEAR_CANVAS =
     state\<lparr>state_strokes := [], selectedStrokes := {}, currentStroke := None,
           previewShape := None\<rparr>"
| "whiteboardReducer tool_id spread state (SET_ALL_TOOLS payload) =
     state\<lparr>allTools := payload\<rparr>"

text \<open>
  \<^verbatim>\<open>addStroke\<close> (lines 437-439) dispatches \<^verbatim>\<open>SET_STROKES\<close> with
  \<^verbatim>\<open>[...state.strokes, stroke]\<close>, where \<^verbatim>\<open>state.strokes\<close> is the list the callback captured
  when the render created it (its dependency list is \<^verbatim>\<open>[state.strokes]\<close>).
  \<^verbatim>\<open>setAllStrokes\<close> (lines 442-444) dispatches \<^verbatim>\<open>SET_STROKES\<close> with its argument. Each is
  the action it dispatches; React then replaces the state by the reducer's result.
\<close>

definition addStroke :: "'stroke list \<Rightarrow> 'stroke \<Rightarrow> ('stroke, 'point, 'tool, 'patch) WhiteboardAction" where
  "addStroke captured stroke = SET_STROKES (captured @ [stroke])"

definition setAllStrokes :: "'stroke list \<Rightarrow> ('stroke, 'point, 'tool, 'patch) WhiteboardAction" where
  "setAllStrokes strokes_arg = SET_STROKES strokes_arg"

text \<open>
  One delivery of a stroke to the store: the callback of the current render is called
  and React applies the action it dispatched.
\<close>

definition deliver_stroke ::
  "('tool \<Rightarrow> string) \<Rightarrow> ('settings \<Rightarrow> 'patch \<Rightarrow> 'settings) \<Rightarrow>
   ('stroke, 'point, 'tool, 'settings) WhiteboardState \<Rightarrow> 'stroke \<Rightarrow>
   ('stroke, 'point, 'tool, 'settings) WhiteboardState" where
  "deliver_stroke tool_id spread state stroke =
     whiteboardReducer tool_id spread state (addStroke (state_strokes state) stroke)"

text \<open>
  The initial state (lines 52-70). The empty object cast to a tool and the settings
  literal are values of the missing types, hence arguments.
\<close>

definition initialState :: "'tool \<Rightarrow> 'settings \<Rightarrow> ('stroke, 'point, 'tool, 'settings) WhiteboardState" where
  "initialState no_tool default_settings =
     \<lparr>activeTool = no_tool, settings = default_settings, allTools = [],
      currentStroke = None, state_strokes = [], selectedStrokes = {}, previewShape = None,
      isDragging = False, dragStart = None, exportFormat = png, isWasmLoaded = False,
      wasmError = None, strokeUpdateTrigger = 0\<rparr>"

section \<open>The stroke:add events of a run\<close>

text \<open>
  An event is a \<^verbatim>\<open>stroke:add\<close> message when its frame parses to a value whose type tag is
  \<^verbatim>\<open>stroke:add\<close>; the stroke it carries is what \<^verbatim>\<open>msg.payload.stroke\<close> reads, when that
  read returns.
\<close>

definition is_stroke_add :: "(data \<Rightarrow> 'n js option) \<Rightarrow> event \<Rightarrow> bool" where
  "is_stroke_add parse ev =
     (case ev of
        Connection \<Rightarrow> False
      | Message sender d \<Rightarrow>
          (case parse d of None \<Rightarrow> False | Some msg \<Rightarrow> has_type msg ''stroke:add''))"

definition added_stroke :: "(data \<Rightarrow> 'n js option) \<Rightarrow> event \<Rightarrow> 'n js option" where
  "added_stroke parse ev =
     (case ev of
        Connection \<Rightarrow> None
      | Message sender d \<Rightarrow>
          (case parse d of
             None \<Rightarrow> None
           | Some msg \<Rightarrow>
               if has_type msg ''stroke:add''
               then (case payload_stroke msg of Inl e \<Rightarrow> None | Inr s \<Rightarrow> Some s)
               else None))"

section \<open>Sample frames\<close>

text \<open>
  Frames as they arrive, byte for byte, and what \<^verbatim>\<open>JSON.parse\<close> returns on each.
  \<open>sample_parse\<close> is \<^verbatim>\<open>JSON.parse\<close> cut down to these frames; every other text is taken as
  not parsing, as \<^verbatim>\<open>{not json\<close> does not.
\<close>

definition dq :: string where
  "dq = [CHR 0x22]"

definition quoted :: "string \<Rightarrow> string" where
  "quoted s = dq @ s @ dq"

definition frame_malformed :: data where
  "frame_malformed = ''{not json''"

text \<open>\<^verbatim>\<open>{"type":"stroke:remove","payload":{"strokeId":"a"}}\<close>\<close>

definition frame_remove :: data where
  "frame_remove =
     ''{'' @ quoted ''type'' @ '':'' @ quoted ''stroke:remove'' @ '','' @
     quoted ''payload'' @ '':{'' @ quoted ''strokeId'' @ '':'' @ quoted ''a'' @ ''}}''"

definition msg_remove :: "int js" where
  "msg_remove =
     JObj [(''type'', JStr ''stroke:remove''), (''payload'', JObj [(''strokeId'', JStr ''a'')])]"

text \<open>\<^verbatim>\<open>{"type":"stroke:add","payload":{"stroke":{"id":"a","userId":"u1"}}}\<close>\<close>

definition frame_add :: data where
  "frame_add =
     ''{'' @ quoted ''type'' @ '':'' @ quoted ''stroke:add'' @ '','' @
     quoted ''payload'' @ '':{'' @ quoted ''stroke'' @ '':{'' @
     quoted ''id'' @ '':'' @ quoted ''a'' @ '','' @
     quoted ''userId'' @ '':'' @ quoted ''u1'' @ ''}}}''"

definition stroke_a :: "int js" where
  "stroke_a = JObj [(''id'', JStr ''a''), (''userId'', JStr ''u1'')]"

definition msg_add :: "int js" where
  "msg_add = JObj [(''type'', JStr ''stroke:add''), (''payload'', JObj [(''stroke'', stroke_a)])]"

text \<open>\<^verbatim>\<open>{"type":"chat:message","payload":{"userId":"u1","username":"A","message":"hi"}}\<close>\<close>

definition frame_chat :: data where
  "frame_chat =
     ''{'' @ quoted ''type'' @ '':'' @ quoted ''chat:message'' @ '','' @
     quoted ''payload'' @ '':{'' @ quoted ''userId'' @ '':'' @ quoted ''u1'' @ '','' @
     quoted ''username'' @ '':'' @ quoted ''A'' @ '','' @
     quoted ''message'' @ '':'' @ quoted ''hi'' @ ''}}''"

definition payload_chat :: "int js" where
  "payload_chat =
     JObj [(''userId'', JStr ''u1''), (''username'', JStr ''A''), (''message'', JStr ''hi'')]"

definition msg_chat :: "int js" where
  "msg_chat = JObj [(''type'', JStr ''chat:message''), (''payload'', payload_chat)]"

text \<open>\<^verbatim>\<open>{"type":"cursor:move","payload":{}}\<close>, a tag outside the union.\<close>

definition frame_unknown :: data where
  "frame_unknown =
     ''{'' @ quoted ''type'' @ '':'' @ quoted ''cursor:move'' @ '','' @
     quoted ''payload'' @ '':{}}''"

definition msg_unknown :: "int js" where
  "msg_unknown = JObj [(''type'', JStr ''cursor:move''), (''payload'', JObj [])]"

text \<open>\<^verbatim>\<open>{"type":"stroke:add","payload":{"stroke":{"id":"b","userId":"u2"}}}\<close>\<close>

definition frame_add_b :: data where
  "frame_add_b =
     ''{'' @ quoted ''type'' @ '':'' @ quoted ''stroke:add'' @ '','' @
     quoted ''payload'' @ '':{'' @ quoted ''stroke'' @ '':{'' @
     quoted ''id'' @ '':'' @ quoted ''b'' @ '','' @
     quoted ''userId'' @ '':'' @ quoted ''u2'' @ ''}}}''"

definition stroke_b :: "int js" where
  "stroke_b = JObj [(''id'', JStr ''b''), (''userId'', JStr ''u2'')]"

definition msg_add_b :: "int js" where
  "msg_add_b = JObj [(''type'', JStr ''stroke:add''), (''payload'', JObj [(''stroke'', stroke_b)])]"

text \<open>\<^verbatim>\<open>{"type":"stroke:add"}\<close>, a tag of the union with no payload, and \<^verbatim>\<open>null\<close>.\<close>

definition frame_add_bare :: data where
  "frame_add_bare = ''{'' @ quoted ''type'' @ '':'' @ quoted ''stroke:add'' @ ''}''"

definition msg_add_bare :: "int js" where
  "msg_add_bare = JObj [(''type'', JStr ''stroke:add'')]"

definition frame_null :: data where
  "frame_null = ''null''"

definition sample_parse :: "data \<Rightarrow> int js option" where
  "sample_parse d =
     (if d = frame_remove then Some msg_remove
      else if d = frame_add then Some msg_add
      else if d = frame_add_b then Some msg_add_b
      else if d = frame_chat then Some msg_chat
      else if d = frame_unknown then Some msg_unknown
      else if d = frame_add_bare then Some msg_add_bare
      else if d = frame_null then Some JNull
      else None)"

text \<open>\<^verbatim>\<open>JSON.stringify\<close> on the sample chat message, which it writes as \<open>frame_chat\<close>.\<close>

definition sample_stringify :: "int js \<Rightarrow> data" where
  "sample_stringify v = (if v = msg_chat then frame_chat else [])"

text \<open>
  Two runs. In the first the session at position 0 adds stroke b, a second client
  connects, chats, sends garbage, and adds stroke a. In the second a client connects,
  adds stroke a, and then sends \<^verbatim>\<open>{"type":"stroke:add"}\<close>.
\<close>

definition sample_events :: "event list" where
  "sample_events =
     [Message 0 frame_add_b, Connection, Message 1 frame_chat, Message 1 frame_malformed,
      Message 1 frame_add]"

definition bare_add_events :: "event list" where
  "bare_add_events = [Connection, Message 0 frame_add, Message 0 frame_add_bare]"

text \<open>A relay with one open session and one that is closing, and nothing stored.\<close>

definition sample_relay :: "int relay" where
  "sample_relay =
     \<lparr>strokes = [],
      chatHistory = [],
      clients = [\<lparr>readyState = OPEN, sent = []\<rparr>, \<lparr>readyState = CLOSING, sent = []\<rparr>]\<rparr>"

text \<open>
  A relay that holds stroke b and one chat entry, with the same two sessions.
\<close>

definition payload_hello :: "int js" where
  "payload_hello =
     JObj [(''userId'', JStr ''u2''), (''username'', JStr ''B''), (''message'', JStr ''hello'')]"

definition busy_relay :: "int relay" where
  "busy_relay =
     \<lparr>strokes = [stroke_b],
      chatHistory = [payload_hello],
      clients = [\<lparr>readyState = OPEN, sent = []\<rparr>, \<lparr>readyState = CLOSING, sent = []\<rparr>]\<rparr>"

text \<open>A client store before anything was drawn.\<close>

definition sample_state :: "(int js, unit, unit, unit) WhiteboardState" where
  "sample_state = initialState () ()"

section \<open>Theorems\<close>

subsection \<open>The handler, case by case\<close>

lemma broadcast_strokes [simp]: "strokes (broadcast d st) = strokes st"
  by (simp add: broadcast_def)

lemma broadcast_chatHistory [simp]: "chatHistory (broadcast d st) = chatHistory st"
  by (simp add: broadcast_def)

lemma clients_broadcast:
  "clients (broadcast d st) =
     map (\<lambda>c. if readyState c = OPEN then c\<lparr>sent := sent c @ [d]\<rparr> else c) (clients st)"
  by (simp add: broadcast_def ws_send_def)

lemma length_clients_broadcast [simp]: "length (clients (broadcast d st)) = length (clients st)"
  by (simp add: clients_broadcast)

lemma nth_clients_broadcast:
  assumes "i < length (clients st)"
  shows "clients (broadcast d st) ! i =
           (if readyState (clients st ! i) = OPEN
            then (clients st ! i)\<lparr>sent := sent (clients st ! i) @ [d]\<rparr>
            else clients st ! i)"
  using assms by (simp add: clients_broadcast)

lemma get_prop_total:
  assumes "get_prop msg k = Inr v"
  shows "\<exists>p. get_prop msg k' = Inr p"
  using assms by (cases msg) simp_all

lemma onMessage_unfold:
  assumes "parse d = Some msg"
  shows "onMessage parse d st =
     (case get_prop msg ''type'' of
        Inl e \<Rightarrow> (Thrown e, st)
      | Inr ty \<Rightarrow>
          if ty = JStr ''stroke:add''
          then (case payload_stroke msg of
                  Inl e \<Rightarrow> (Thrown e, st)
                | Inr s \<Rightarrow> (Returned, broadcast d (st\<lparr>strokes := strokes st @ [s]\<rparr>)))
          else if ty = JStr ''chat:message''
          then (case get_prop msg ''payload'' of
                  Inl e \<Rightarrow> (Thrown e, st)
                | Inr p \<Rightarrow> (Returned, broadcast d (st\<lparr>chatHistory := chatHistory st @ [p]\<rparr>)))
          else (Returned, broadcast d st))"
  using assms
  by (auto simp: onMessage_def handle_stroke_add_def handle_chat_message_def
           split: sum.splits)

text \<open>
  When the handler throws: the frame parses to \<^verbatim>\<open>null\<close> (line 37 reads \<^verbatim>\<open>msg.type\<close>), or
  to a \<^verbatim>\<open>stroke:add\<close> whose payload is absent or \<^verbatim>\<open>null\<close> (line 38 reads
  \<^verbatim>\<open>msg.payload.stroke\<close>). In both cases nothing has been written or sent.
\<close>

lemma payload_stroke_throws:
  "(\<exists>e. payload_stroke msg = Inl e) =
     (msg = JNull \<or> msg = JUndefined \<or>
      get_prop msg ''payload'' = Inr JNull \<or> get_prop msg ''payload'' = Inr JUndefined)"
proof (cases "get_prop msg ''payload''")
  case (Inl e)
  then show ?thesis by (cases msg) (simp_all add: payload_stroke_def)
next
  case (Inr p)
  then have "msg \<noteq> JNull" "msg \<noteq> JUndefined" by auto
  with Inr show ?thesis by (cases p) (simp_all add: payload_stroke_def)
qed

lemma onMessage_throws_iff:
  "(fst (onMessage parse d st) \<noteq> Returned) =
     (\<exists>msg. parse d = Some msg \<and>
        (msg = JNull \<or> msg = JUndefined \<or>
         (has_type msg ''stroke:add'' \<and>
          (get_prop msg ''payload'' = Inr JNull \<or> get_prop msg ''payload'' = Inr JUndefined))))"
proof (cases "parse d")
  case None
  then show ?thesis by (simp add: onMessage_def)
next
  case (Some msg)
  show ?thesis
  proof (cases "get_prop msg ''type''")
    case (Inl e)
    then have "msg = JNull \<or> msg = JUndefined" by (cases msg) simp_all
    with Some Inl show ?thesis
      by (auto simp: onMessage_unfold [of parse d msg, OF Some])
  next
    case (Inr ty)
    then have n: "msg \<noteq> JNull" "msg \<noteq> JUndefined" by auto
    from Inr obtain p where p: "get_prop msg ''payload'' = Inr p"
      using get_prop_total by blast
    from payload_stroke_throws [of msg] n
    have "(\<exists>e. payload_stroke msg = Inl e) = (p = JNull \<or> p = JUndefined)"
      by (simp add: p)
    with Some Inr n p show ?thesis
      by (auto simp: onMessage_unfold [of parse d msg, OF Some] has_type_def
               split: sum.splits)
  qed
qed

lemma onMessage_throw_keeps_state:
  assumes "onMessage parse d st = (Thrown e, st')"
  shows "st' = st"
proof (cases "parse d")
  case None
  with assms show ?thesis by (simp add: onMessage_def)
next
  case (Some msg)
  from assms show ?thesis
    unfolding onMessage_unfold [of parse d msg, OF Some]
    by (simp split: sum.splits if_splits)
qed

subsection \<open>The sample frames, parsed\<close>

lemma sample_parse_remove: "sample_parse frame_remove = Some msg_remove"
  by (simp add: sample_parse_def frame_remove_def frame_add_def frame_add_b_def frame_chat_def frame_unknown_def
        frame_add_bare_def frame_null_def frame_malformed_def quoted_def dq_def)

lemma sample_parse_add: "sample_parse frame_add = Some msg_add"
  by (simp add: sample_parse_def frame_remove_def frame_add_def frame_add_b_def frame_chat_def frame_unknown_def
        frame_add_bare_def frame_null_def frame_malformed_def quoted_def dq_def)

lemma sample_parse_add_b: "sample_parse frame_add_b = Some msg_add_b"
  by (simp add: sample_parse_def frame_remove_def frame_add_def frame_add_b_def frame_chat_def frame_unknown_def
        frame_add_bare_def frame_null_def frame_malformed_def quoted_def dq_def)

lemma sample_parse_chat: "sample_parse frame_chat = Some msg_chat"
  by (simp add: sample_parse_def frame_remove_def frame_add_def frame_add_b_def frame_chat_def frame_unknown_def
        frame_add_bare_def frame_null_def frame_malformed_def quoted_def dq_def)

lemma sample_parse_unknown: "sample_parse frame_unknown = Some msg_unknown"
  by (simp add: sample_parse_def frame_remove_def frame_add_def frame_add_b_def frame_chat_def frame_unknown_def
        frame_add_bare_def frame_null_def frame_malformed_def quoted_def dq_def)

lemma sample_parse_add_bare: "sample_parse frame_add_bare = Some msg_add_bare"
  by (simp add: sample_parse_def frame_remove_def frame_add_def frame_add_b_def frame_chat_def frame_unknown_def
        frame_add_bare_def frame_null_def frame_malformed_def quoted_def dq_def)

lemma sample_parse_null: "sample_parse frame_null = Some JNull"
  by (simp add: sample_parse_def frame_remove_def frame_add_def frame_add_b_def frame_chat_def frame_unknown_def
        frame_add_bare_def frame_null_def frame_malformed_def quoted_def dq_def)

lemma sample_parse_malformed: "sample_parse frame_malformed = None"
  by (simp add: sample_parse_def frame_remove_def frame_add_def frame_add_b_def frame_chat_def frame_unknown_def
        frame_add_bare_def frame_null_def frame_malformed_def quoted_def dq_def)

lemma not_recognized_unknown: "\<not> recognized_type msg_unknown"
  by (simp add: recognized_type_def has_type_def msg_unknown_def Message_types_def)

lemma onMessage_add:
  "onMessage sample_parse frame_add st =
     (Returned, broadcast frame_add (st\<lparr>strokes := strokes st @ [stroke_a]\<rparr>))"
  by (simp add: onMessage_unfold [of sample_parse frame_add msg_add, OF sample_parse_add]
        msg_add_def payload_stroke_def)

lemma onMessage_add_b:
  "onMessage sample_parse frame_add_b st =
     (Returned, broadcast frame_add_b (st\<lparr>strokes := strokes st @ [stroke_b]\<rparr>))"
  by (simp add: onMessage_unfold [of sample_parse frame_add_b msg_add_b, OF sample_parse_add_b]
        msg_add_b_def payload_stroke_def)

lemma onMessage_malformed: "onMessage sample_parse frame_malformed st = (Returned, st)"
  by (simp add: onMessage_def sample_parse_malformed)

lemma onMessage_chat:
  "onMessage sample_parse frame_chat st =
     (Returned, broadcast frame_chat (st\<lparr>chatHistory := chatHistory st @ [payload_chat]\<rparr>))"
  by (simp add: onMessage_unfold [of sample_parse frame_chat msg_chat, OF sample_parse_chat]
        msg_chat_def)

lemma onMessage_add_bare:
  "onMessage sample_parse frame_add_bare st = (Thrown TypeError, st)"
  by (simp add: onMessage_unfold [of sample_parse frame_add_bare msg_add_bare,
          OF sample_parse_add_bare] msg_add_bare_def payload_stroke_def)

lemma recognized_type_add_bare: "recognized_type msg_add_bare"
  by (simp add: recognized_type_def has_type_def msg_add_bare_def Message_types_def)

lemma bare_stroke_add_throws:
  "onMessage sample_parse frame_add_bare sample_relay = (Thrown TypeError, sample_relay)"
  by (simp add: onMessage_unfold [of sample_parse frame_add_bare msg_add_bare,
          OF sample_parse_add_bare] msg_add_bare_def payload_stroke_def)

lemma null_frame_throws:
  "onMessage sample_parse frame_null sample_relay = (Thrown TypeError, sample_relay)"
  by (simp add: onMessage_unfold [of sample_parse frame_null JNull, OF sample_parse_null])

subsection \<open>What the handler stores\<close>

text \<open>
  C1. Let the frame parse. If the message is a \<^verbatim>\<open>stroke:remove\<close>, \<^verbatim>\<open>stroke:move\<close>,
  \<^verbatim>\<open>board:clear\<close> or \<^verbatim>\<open>user:join\<close>, the handler returns, and the relay after it is the relay
  before it with one change: every session that is open has been handed the frame. The
  board after the handler is the board before it, except on a \<^verbatim>\<open>stroke:add\<close>, where the
  stroke read from the payload has been appended (and nothing, if that read throws). The
  chat history after the handler is the chat history before it, except on a
  \<^verbatim>\<open>chat:message\<close>, where the payload has been appended.
\<close>

theorem only_add_and_chat_mutate:
  assumes "parse d = Some msg"
  shows
    "(has_type msg ''stroke:remove'' \<or> has_type msg ''stroke:move'' \<or>
      has_type msg ''board:clear'' \<or> has_type msg ''user:join''
        \<longrightarrow> onMessage parse d st =
              (Returned,
               st\<lparr>clients :=
                    map (\<lambda>c. if readyState c = OPEN then c\<lparr>sent := sent c @ [d]\<rparr> else c)
                      (clients st)\<rparr>)) \<and>
     strokes (snd (onMessage parse d st)) =
       (if has_type msg ''stroke:add''
        then (case payload_stroke msg of Inl e \<Rightarrow> strokes st | Inr s \<Rightarrow> strokes st @ [s])
        else strokes st) \<and>
     chatHistory (snd (onMessage parse d st)) =
       (if has_type msg ''chat:message''
        then (case get_prop msg ''payload'' of
                Inl e \<Rightarrow> chatHistory st
              | Inr p \<Rightarrow> chatHistory st @ [p])
        else chatHistory st)"
proof -
  have b: "broadcast d st =
      st\<lparr>clients :=
           map (\<lambda>c. if readyState c = OPEN then c\<lparr>sent := sent c @ [d]\<rparr> else c) (clients st)\<rparr>"
    by (simp add: broadcast_def ws_send_def)
  show ?thesis
    unfolding onMessage_unfold [of parse d msg, OF assms] has_type_def
    by (auto simp: b split: sum.splits)
qed

text \<open>
  C1 on the relay that holds stroke b and one chat entry: the sample \<^verbatim>\<open>stroke:remove\<close>
  changes only what the open session was sent, the sample \<^verbatim>\<open>stroke:add\<close> appends stroke
  a to the board and leaves the chat history, and the sample \<^verbatim>\<open>chat:message\<close> appends its
  payload to the chat history and leaves the board.
\<close>

theorem only_add_and_chat_mutate_witness:
  "sample_parse frame_remove = Some msg_remove \<and>
   has_type msg_remove ''stroke:remove'' \<and>
   onMessage sample_parse frame_remove busy_relay =
     (Returned,
      \<lparr>strokes = [stroke_b], chatHistory = [payload_hello],
       clients = [\<lparr>readyState = OPEN, sent = [frame_remove]\<rparr>,
                  \<lparr>readyState = CLOSING, sent = []\<rparr>]\<rparr>) \<and>
   sample_parse frame_add = Some msg_add \<and>
   has_type msg_add ''stroke:add'' \<and>
   strokes (snd (onMessage sample_parse frame_add busy_relay)) = [stroke_b, stroke_a] \<and>
   chatHistory (snd (onMessage sample_parse frame_add busy_relay)) = [payload_hello] \<and>
   sample_parse frame_chat = Some msg_chat \<and>
   has_type msg_chat ''chat:message'' \<and>
   strokes (snd (onMessage sample_parse frame_chat busy_relay)) = [stroke_b] \<and>
   chatHistory (snd (onMessage sample_parse frame_chat busy_relay)) =
     [payload_hello, payload_chat]"
proof -
  have r: "has_type msg_remove ''stroke:remove''"
    "\<not> has_type msg_remove ''stroke:add''" "\<not> has_type msg_remove ''chat:message''"
    by (simp_all add: has_type_def msg_remove_def)
  have a: "has_type msg_add ''stroke:add''" "\<not> has_type msg_add ''chat:message''"
    "payload_stroke msg_add = Inr stroke_a"
    by (simp_all add: has_type_def msg_add_def payload_stroke_def)
  have c: "has_type msg_chat ''chat:message''" "\<not> has_type msg_chat ''stroke:add''"
    "get_prop msg_chat ''payload'' = Inr payload_chat"
    by (simp_all add: has_type_def msg_chat_def)
  from only_add_and_chat_mutate [of sample_parse frame_remove msg_remove busy_relay,
      OF sample_parse_remove]
    only_add_and_chat_mutate [of sample_parse frame_add msg_add busy_relay,
      OF sample_parse_add]
    only_add_and_chat_mutate [of sample_parse frame_chat msg_chat busy_relay,
      OF sample_parse_chat]
  show ?thesis
    by (simp add: r a c sample_parse_remove sample_parse_add sample_parse_chat busy_relay_def)
qed

subsection \<open>Unrecognized types\<close>

text \<open>
  C2 as stated fails: the frame \<^verbatim>\<open>{"type":"cursor:move","payload":{}}\<close> parses, its tag is
  none of the eight, and the open session is sent the frame.
\<close>

theorem unknown_type_counterexample:
  "sample_parse frame_unknown = Some msg_unknown \<and>
   \<not> recognized_type msg_unknown \<and>
   map sent (clients sample_relay) = [[], []] \<and>
   map sent (clients (snd (onMessage sample_parse frame_unknown sample_relay))) =
     [[frame_unknown], []]"
proof -
  have ty: "get_prop msg_unknown ''type'' = Inr (JStr ''cursor:move'')"
    by (simp add: msg_unknown_def)
  have "onMessage sample_parse frame_unknown sample_relay =
      (Returned, broadcast frame_unknown sample_relay)"
    by (simp add: ty
          onMessage_unfold [of sample_parse frame_unknown msg_unknown, OF sample_parse_unknown])
  then show ?thesis
    by (simp add: sample_parse_unknown not_recognized_unknown clients_broadcast
          sample_relay_def)
qed

text \<open>
  C2, amended. A frame that parses to a value other than \<^verbatim>\<open>null\<close> and whose type is none of
  the eight is not discarded. The handler stores nothing and builds no reply of its own,
  but it hands the received frame, once, to every session that is open; the handler has
  no check of the tag.
\<close>

theorem unknown_type_rebroadcast:
  assumes "parse d = Some msg" and "msg \<noteq> JNull" and "msg \<noteq> JUndefined"
    and "\<not> recognized_type msg"
  shows "onMessage parse d st = (Returned, broadcast d st) \<and>
         strokes (broadcast d st) = strokes st \<and>
         chatHistory (broadcast d st) = chatHistory st \<and>
         clients (broadcast d st) =
           map (\<lambda>c. if readyState c = OPEN then c\<lparr>sent := sent c @ [d]\<rparr> else c) (clients st)"
proof -
  obtain ty where ty: "get_prop msg ''type'' = Inr ty"
    using assms(2,3) by (cases msg) simp_all
  have "\<not> has_type msg ''stroke:add''" "\<not> has_type msg ''chat:message''"
    using assms(4) by (simp_all add: recognized_type_def Message_types_def)
  with ty have "ty \<noteq> JStr ''stroke:add''" "ty \<noteq> JStr ''chat:message''"
    by (simp_all add: has_type_def)
  with ty show ?thesis
    by (simp add: onMessage_unfold [of parse d msg, OF assms(1)] clients_broadcast)
qed

text \<open>C2 as amended, at the same frame.\<close>

theorem unknown_type_rebroadcast_witness:
  "sample_parse frame_unknown = Some msg_unknown \<and>
   msg_unknown \<noteq> JNull \<and> msg_unknown \<noteq> JUndefined \<and>
   \<not> recognized_type msg_unknown \<and>
   onMessage sample_parse frame_unknown sample_relay =
     (Returned, broadcast frame_unknown sample_relay) \<and>
   strokes (broadcast frame_unknown sample_relay) = [] \<and>
   chatHistory (broadcast frame_unknown sample_relay) = [] \<and>
   clients (broadcast frame_unknown sample_relay) =
     [\<lparr>readyState = OPEN, sent = [frame_unknown]\<rparr>, \<lparr>readyState = CLOSING, sent = []\<rparr>]"
proof -
  have n: "msg_unknown \<noteq> JNull" "msg_unknown \<noteq> JUndefined"
    by (simp_all add: msg_unknown_def)
  from unknown_type_rebroadcast [of sample_parse frame_unknown msg_unknown sample_relay,
      OF sample_parse_unknown n not_recognized_unknown]
  show ?thesis
    by (simp add: sample_parse_unknown n not_recognized_unknown sample_relay_def)
qed

subsection \<open>The board after a run\<close>

text \<open>
  As long as no handler throws, the board is the strokes of the \<^verbatim>\<open>stroke:add\<close> messages
  in the order they came, one for each.
\<close>

lemma step_strokes_when_returned:
  assumes "fst (step parse stringify st ev) = Returned"
  shows "strokes (snd (step parse stringify st ev)) =
           strokes st @ (case added_stroke parse ev of None \<Rightarrow> [] | Some s \<Rightarrow> [s]) \<and>
         (added_stroke parse ev \<noteq> None) = is_stroke_add parse ev"
proof (cases ev)
  case Connection
  then show ?thesis by (simp add: connect_def added_stroke_def is_stroke_add_def)
next
  case (Message sender d)
  show ?thesis
  proof (cases "parse d")
    case None
    with Message show ?thesis by (simp add: onMessage_def added_stroke_def is_stroke_add_def)
  next
    case (Some msg)
    from assms Message have r: "fst (onMessage parse d st) = Returned"
      by simp
    show ?thesis
    proof (cases "has_type msg ''stroke:add''")
      case True
      then have ty: "get_prop msg ''type'' = Inr (JStr ''stroke:add'')"
        by (simp add: has_type_def)
      from r ty obtain s where s: "payload_stroke msg = Inr s"
        by (cases "payload_stroke msg")
          (simp_all add: onMessage_unfold [of parse d msg, OF Some])
      from Message Some True ty s show ?thesis
        by (simp add: onMessage_unfold [of parse d msg, OF Some] added_stroke_def
              is_stroke_add_def)
    next
      case False
      from r obtain ty where ty: "get_prop msg ''type'' = Inr ty"
        by (cases "get_prop msg ''type''")
          (simp_all add: onMessage_unfold [of parse d msg, OF Some])
      with False have n: "ty \<noteq> JStr ''stroke:add''"
        by (simp add: has_type_def)
      from Message Some False ty n show ?thesis
        by (simp add: onMessage_unfold [of parse d msg, OF Some] added_stroke_def
              is_stroke_add_def split: sum.splits)
    qed
  qed
qed

lemma run_strokes_when_returned:
  assumes "fst (run parse stringify st evs) = Returned"
  shows "strokes (snd (run parse stringify st evs)) =
           strokes st @ List.map_filter (added_stroke parse) evs \<and>
         length (List.map_filter (added_stroke parse) evs) =
           length (filter (is_stroke_add parse) evs)"
  using assms
proof (induction evs arbitrary: st)
  case Nil
  show ?case by (simp add: List.map_filter_simps)
next
  case (Cons ev evs)
  obtain out st1 where s: "step parse stringify st ev = (out, st1)"
    by (cases "step parse stringify st ev")
  from Cons.prems s have out: "out = Returned"
    by (cases out) simp_all
  with Cons.prems s have r1: "fst (run parse stringify st1 evs) = Returned"
    by simp
  from step_strokes_when_returned [of parse stringify st ev] s out
  have st1: "strokes st1 =
      strokes st @ (case added_stroke parse ev of None \<Rightarrow> [] | Some s \<Rightarrow> [s])"
    and a: "(added_stroke parse ev \<noteq> None) = is_stroke_add parse ev"
    by simp_all
  from Cons.IH [OF r1] s out st1 a show ?case
    by (auto simp: List.map_filter_simps split: option.splits)
qed

lemma sample_events_run:
  "fst (run sample_parse sample_stringify initial_relay sample_events) = Returned \<and>
   strokes (snd (run sample_parse sample_stringify initial_relay sample_events)) =
     [stroke_b, stroke_a]"
  by (simp add: sample_events_def initial_relay_def connect_def onMessage_add_b
        onMessage_add onMessage_chat onMessage_malformed)

text \<open>
  C3 fails on the code. A client connects, sends the sample \<^verbatim>\<open>stroke:add\<close> and then
  \<^verbatim>\<open>{"type":"stroke:add"}\<close>: both frames parse to a message whose type tag is
  \<^verbatim>\<open>stroke:add\<close>, the handler throws on the second at the read of
  \<^verbatim>\<open>msg.payload.stroke\<close>, and the board holds one stroke, not two.
\<close>

theorem bare_stroke_add_breaks_count:
  "length (filter (is_stroke_add sample_parse) bare_add_events) = 2 \<and>
   fst (run sample_parse sample_stringify initial_relay bare_add_events) = Thrown TypeError \<and>
   strokes (snd (run sample_parse sample_stringify initial_relay bare_add_events)) =
     [stroke_a]"
proof -
  have n: "length (filter (is_stroke_add sample_parse) bare_add_events) = 2"
    by (simp add: bare_add_events_def is_stroke_add_def sample_parse_add
          sample_parse_add_bare has_type_def msg_add_def msg_add_bare_def)
  have r: "run sample_parse sample_stringify initial_relay bare_add_events =
      (Thrown TypeError,
       broadcast frame_add
         ((connect sample_stringify initial_relay)\<lparr>strokes := [stroke_a]\<rparr>))"
    by (simp add: bare_add_events_def onMessage_add onMessage_add_bare connect_def
          initial_relay_def)
  from n r show ?thesis
    by simp
qed

subsection \<open>Snapshots on connection\<close>

lemma onMessage_sent_prefix:
  "length (clients (snd (onMessage parse d st))) = length (clients st) \<and>
   (\<forall>i < length (clients st).
      prefix (sent (clients st ! i)) (sent (clients (snd (onMessage parse d st)) ! i)))"
proof (cases "parse d")
  case None
  then show ?thesis by (simp add: onMessage_def)
next
  case (Some msg)
  show ?thesis
    unfolding onMessage_unfold [of parse d msg, OF Some]
    by (simp add: nth_clients_broadcast split: sum.splits)
qed

lemma step_sent_prefix:
  assumes "i < length (clients st)"
  shows "i < length (clients (snd (step parse stringify st ev))) \<and>
         prefix (sent (clients st ! i)) (sent (clients (snd (step parse stringify st ev)) ! i))"
proof (cases ev)
  case Connection
  with assms show ?thesis by (simp add: connect_def nth_append)
next
  case (Message sender d)
  with assms onMessage_sent_prefix [of parse d st] show ?thesis by simp
qed

lemma run_sent_prefix:
  assumes "i < length (clients st)"
  shows "i < length (clients (snd (run parse stringify st evs))) \<and>
         prefix (sent (clients st ! i)) (sent (clients (snd (run parse stringify st evs)) ! i))"
  using assms
proof (induction evs arbitrary: st)
  case Nil
  then show ?case by simp
next
  case (Cons ev evs)
  obtain out st1 where s: "step parse stringify st ev = (out, st1)"
    by (cases "step parse stringify st ev")
  from step_sent_prefix [OF Cons.prems, of parse stringify ev] s
  have i1: "i < length (clients st1)"
    and p1: "prefix (sent (clients st ! i)) (sent (clients st1 ! i))"
    by simp_all
  show ?case
  proof (cases out)
    case Returned
    from Cons.IH [OF i1] p1
    have "i < length (clients (snd (run parse stringify st1 evs))) \<and>
          prefix (sent (clients st ! i)) (sent (clients (snd (run parse stringify st1 evs)) ! i))"
      using prefix_order.trans by blast
    with s Returned show ?thesis by simp
  next
    case (Thrown e)
    with s i1 p1 show ?thesis by simp
  qed
qed

text \<open>
  C4. A connection event returns without a throw and leaves the board and the chat
  history as they are. The new session, open, is added after the sessions there were, and
  it has been sent exactly two frames: first the text of a \<^verbatim>\<open>board:sync\<close> object whose
  \<^verbatim>\<open>strokes\<close> array is the board as it stands and whose \<^verbatim>\<open>users\<close> array is empty, then the
  text of a \<^verbatim>\<open>chat:sync\<close> object whose \<^verbatim>\<open>chatHistory\<close> array is the chat history as it
  stands. Whatever events follow, these two stay the first two frames of that session.
\<close>

theorem connection_sends_two_snapshots:
  "step parse stringify st Connection = (Returned, connect stringify st) \<and>
   strokes (connect stringify st) = strokes st \<and>
   chatHistory (connect stringify st) = chatHistory st \<and>
   clients (connect stringify st) =
     clients st @
       [\<lparr>readyState = OPEN,
         sent =
           [stringify
              (JObj [(''type'', JStr ''board:sync''),
                     (''payload'',
                      JObj [(''strokes'', JArr (strokes st)), (''users'', JArr [])])]),
            stringify
              (JObj [(''type'', JStr ''chat:sync''),
                     (''payload'', JObj [(''chatHistory'', JArr (chatHistory st))])])]\<rparr>] \<and>
   prefix
     [stringify (syncMsg st), stringify (chatSyncMsg st)]
     (sent (clients (snd (run parse stringify (connect stringify st) evs)) ! length (clients st)))"
proof -
  have c: "clients (connect stringify st) =
      clients st @
        [\<lparr>readyState = OPEN, sent = [stringify (syncMsg st), stringify (chatSyncMsg st)]\<rparr>]"
    by (simp add: connect_def onConnection_def new_socket_def ws_send_def)
  have i: "length (clients st) < length (clients (connect stringify st))"
    by (simp add: c)
  have "sent (clients (connect stringify st) ! length (clients st)) =
      [stringify (syncMsg st), stringify (chatSyncMsg st)]"
    by (simp add: c)
  with run_sent_prefix [OF i, of parse stringify evs]
  have p: "prefix [stringify (syncMsg st), stringify (chatSyncMsg st)]
     (sent (clients (snd (run parse stringify (connect stringify st) evs)) ! length (clients st)))"
    by simp
  have f: "strokes (connect stringify st) = strokes st"
    "chatHistory (connect stringify st) = chatHistory st"
    by (simp_all add: connect_def)
  from c p f show ?thesis
    by (simp add: syncMsg_def chatSyncMsg_def)
qed

subsection \<open>Duplicate delivery to the client store\<close>

text \<open>
  C5 as stated fails: a stroke with id a delivered twice to the empty store leaves two
  strokes with id a, and the second delivery changes the store.
\<close>

theorem duplicate_delivery_counterexample:
  "state_strokes (deliver_stroke (\<lambda>t. []) (\<lambda>s p. s) sample_state stroke_a) = [stroke_a] \<and>
   state_strokes
     (deliver_stroke (\<lambda>t. []) (\<lambda>s p. s)
       (deliver_stroke (\<lambda>t. []) (\<lambda>s p. s) sample_state stroke_a) stroke_a) =
     [stroke_a, stroke_a] \<and>
   deliver_stroke (\<lambda>t. []) (\<lambda>s p. s)
       (deliver_stroke (\<lambda>t. []) (\<lambda>s p. s) sample_state stroke_a) stroke_a \<noteq>
     deliver_stroke (\<lambda>t. []) (\<lambda>s p. s) sample_state stroke_a \<and>
   length
     (filter (\<lambda>s. get_prop s ''id'' = Inr (JStr ''a''))
        (state_strokes
          (deliver_stroke (\<lambda>t. []) (\<lambda>s p. s)
            (deliver_stroke (\<lambda>t. []) (\<lambda>s p. s) sample_state stroke_a) stroke_a))) = 2"
  by (simp add: deliver_stroke_def addStroke_def sample_state_def initialState_def
        stroke_a_def)

text \<open>
  C5, amended. \<^verbatim>\<open>addStroke\<close> appends and never looks at an id: one delivery puts the
  stroke at the end of the store and changes nothing else, and the same stroke delivered a
  second time is appended a second time, so the store ends with two copies of it.
\<close>

theorem duplicate_delivery_appends_twice:
  "deliver_stroke tool_id spread state stroke =
     state\<lparr>state_strokes := state_strokes state @ [stroke]\<rparr> \<and>
   state_strokes
     (deliver_stroke tool_id spread (deliver_stroke tool_id spread state stroke) stroke) =
     state_strokes state @ [stroke, stroke]"
  by (simp add: deliver_stroke_def addStroke_def)

subsection \<open>Rebroadcast\<close>

text \<open>
  Whenever the handler returns on a frame that parsed, whatever the type, every session
  that is open has been handed the frame once and the others nothing.
\<close>

lemma rebroadcast_when_returned:
  assumes "parse d = Some msg" and "fst (onMessage parse d st) = Returned"
  shows "clients (snd (onMessage parse d st)) =
           map (\<lambda>c. if readyState c = OPEN then c\<lparr>sent := sent c @ [d]\<rparr> else c) (clients st)"
  using assms(2)
  unfolding onMessage_unfold [of parse d msg, OF assms(1)]
  by (auto simp: clients_broadcast split: sum.splits if_splits)

lemma chat_message_echo:
  "clients (snd (onMessage sample_parse frame_chat sample_relay)) =
     [\<lparr>readyState = OPEN, sent = [frame_chat]\<rparr>, \<lparr>readyState = CLOSING, sent = []\<rparr>]"
  by (simp add: onMessage_chat clients_broadcast sample_relay_def)

text \<open>
  C6 fails on the code. The frame \<^verbatim>\<open>{"type":"stroke:add"}\<close> parses and its type tag is one
  of the eight, and the relay has an open session; the handler throws at the read of
  \<^verbatim>\<open>msg.payload.stroke\<close>, before the broadcast, and no session is handed the frame.
\<close>

theorem bare_stroke_add_not_rebroadcast:
  "sample_parse frame_add_bare = Some msg_add_bare \<and>
   recognized_type msg_add_bare \<and>
   map readyState (clients sample_relay) = [OPEN, CLOSING] \<and>
   onMessage sample_parse frame_add_bare sample_relay = (Thrown TypeError, sample_relay) \<and>
   map sent (clients (snd (onMessage sample_parse frame_add_bare sample_relay))) = [[], []]"
  by (simp add: sample_parse_add_bare recognized_type_add_bare onMessage_add_bare
        sample_relay_def)

subsection \<open>Malformed frames\<close>

text \<open>
  C7. A frame whose body is not valid JSON is dropped: the handler returns without
  throwing and the whole relay (board, chat history, every session's ready state and
  everything sent to it) is as before, so the run that follows is the run without it.
\<close>

theorem malformed_frame_dropped:
  assumes "parse d = None"
  shows "onMessage parse d st = (Returned, st) \<and>
         run parse stringify st (Message sender d # evs) = run parse stringify st evs"
  using assms by (simp add: onMessage_def)

text \<open>C7 at the frame \<^verbatim>\<open>{not json\<close> from the open session of the sample relay.\<close>

theorem malformed_frame_dropped_witness:
  "sample_parse frame_malformed = None \<and>
   onMessage sample_parse frame_malformed sample_relay = (Returned, sample_relay) \<and>
   run sample_parse (\<lambda>v. []) sample_relay [Message 0 frame_malformed] =
     (Returned, sample_relay)"
proof -
  note p = sample_parse_malformed
  from malformed_frame_dropped [of sample_parse frame_malformed sample_relay "\<lambda>v. []" 0 "[]",
      OF p]
  show ?thesis
    by (simp add: p)
qed

subsection \<open>Snapshot on the client\<close>

text \<open>
  C8. \<^verbatim>\<open>setAllStrokes\<close> with a snapshot makes the local strokes exactly the snapshot,
  whatever they were, and changes no other field of the state.
\<close>

theorem snapshot_replaces_store:
  "state_strokes (whiteboardReducer tool_id spread state (setAllStrokes snapshot)) = snapshot \<and>
   whiteboardReducer tool_id spread state (setAllStrokes snapshot) =
     state\<lparr>state_strokes := snapshot\<rparr>"
  by (simp add: setAllStrokes_def)

subsection \<open>The board only grows\<close>

lemma onMessage_strokes_prefix:
  "prefix (strokes st) (strokes (snd (onMessage parse d st)))"
proof (cases "parse d")
  case None
  then show ?thesis by (simp add: onMessage_def)
next
  case (Some msg)
  show ?thesis
    unfolding onMessage_unfold [of parse d msg, OF Some]
    by (simp split: sum.splits)
qed

lemma step_strokes_prefix:
  "prefix (strokes st) (strokes (snd (step parse stringify st ev)))"
  by (cases ev) (simp_all add: connect_def onMessage_strokes_prefix)

lemma run_strokes_prefix:
  "prefix (strokes st) (strokes (snd (run parse stringify st evs)))"
proof (induction evs arbitrary: st)
  case Nil
  show ?case by simp
next
  case (Cons ev evs)
  obtain out st1 where s: "step parse stringify st ev = (out, st1)"
    by (cases "step parse stringify st ev")
  have p1: "prefix (strokes st) (strokes st1)"
    using step_strokes_prefix [of st parse stringify ev] s by simp
  show ?case
  proof (cases out)
    case Returned
    have "prefix (strokes st1) (strokes (snd (run parse stringify st1 evs)))"
      by (rule Cons.IH)
    with p1 have "prefix (strokes st) (strokes (snd (run parse stringify st1 evs)))"
      by (rule prefix_order.trans)
    with s Returned show ?thesis by simp
  next
    case (Thrown e)
    with s p1 show ?thesis by simp
  qed
qed

text \<open>
  C9. Whatever the frame (it may fail to parse, or make the handler throw), the board
  before the handler runs is a prefix of the board after it; the same holds over any run
  of events, so the number of stored strokes never decreases and no stored stroke is
  removed, moved or changed.
\<close>

theorem board_only_grows:
  "prefix (strokes st) (strokes (snd (onMessage parse d st))) \<and>
   prefix (strokes st) (strokes (snd (run parse stringify st evs))) \<and>
   length (strokes st) \<le> length (strokes (snd (run parse stringify st evs)))"
  by (simp add: onMessage_strokes_prefix run_strokes_prefix prefix_length_le)

subsection \<open>The client's send\<close>

text \<open>
  C10. \<^verbatim>\<open>send\<close> changes the socket ref only when it holds a socket that is open, and
  then by handing that socket the text of the message. With no socket, or one that is
  connecting, closing or closed, the ref is returned as it was: nothing is sent and
  nothing is kept for later, and no branch of \<^verbatim>\<open>send\<close> throws there.
\<close>

theorem send_only_when_open:
  "(send stringify current msg \<noteq> current \<longrightarrow>
      (\<exists>ws. current = Some ws \<and> readyState ws = OPEN)) \<and>
   (\<forall>ws. current = Some ws \<and> readyState ws = OPEN \<longrightarrow>
      send stringify current msg = Some (ws\<lparr>sent := sent ws @ [stringify msg]\<rparr>)) \<and>
   (current = None \<or> (\<exists>ws. current = Some ws \<and> readyState ws \<noteq> OPEN) \<longrightarrow>
      send stringify current msg = current)"
  by (auto simp: send_def ws_send_def split: option.splits)

text \<open>C10 at the sample chat message, offered with no socket and to sockets in each state.\<close>

theorem send_only_when_open_witness:
  "send sample_stringify None msg_chat = None \<and>
   send sample_stringify (Some \<lparr>readyState = CONNECTING, sent = []\<rparr>) msg_chat =
     Some \<lparr>readyState = CONNECTING, sent = []\<rparr> \<and>
   send sample_stringify (Some \<lparr>readyState = CLOSING, sent = []\<rparr>) msg_chat =
     Some \<lparr>readyState = CLOSING, sent = []\<rparr> \<and>
   send sample_stringify (Some \<lparr>readyState = CLOSED, sent = []\<rparr>) msg_chat =
     Some \<lparr>readyState = CLOSED, sent = []\<rparr> \<and>
   send sample_stringify (Some \<lparr>readyState = OPEN, sent = []\<rparr>) msg_chat =
     Some \<lparr>readyState = OPEN, sent = [frame_chat]\<rparr>"
  using send_only_when_open [of sample_stringify None msg_chat]
    send_only_when_open [of sample_stringify "Some \<lparr>readyState = CONNECTING, sent = []\<rparr>" msg_chat]
    send_only_when_open [of sample_stringify "Some \<lparr>readyState = CLOSING, sent = []\<rparr>" msg_chat]
    send_only_when_open [of sample_stringify "Some \<lparr>readyState = CLOSED, sent = []\<rparr>" msg_chat]
    send_only_when_open [of sample_stringify "Some \<lparr>readyState = OPEN, sent = []\<rparr>" msg_chat]
  by (simp add: sample_stringify_def)

end
